theory Spec2Isabelle
  imports Main "HOL-Library.Word"
begin

section \<open>JavaScript values, objects and errors\<close>

text \<open>
  The request bodies, user documents and session fields handled by the controller are
  flat JavaScript objects. Their values are modelled by the primitive values that JSON
  and the two database drivers deliver: \<open>undefined\<close> (an absent property), \<open>null\<close>,
  booleans, integral numbers and strings. A string is a list of characters.
\<close>

datatype jsval = JUndefined | JNull | JBool bool | JNum int | JStr string

text \<open>The truthiness test behind \<open>!x\<close>, \<open>x || y\<close> and \<open>if (x)\<close>.\<close>

fun truthy :: "jsval \<Rightarrow> bool" where
  "truthy JUndefined = False"
| "truthy JNull = False"
| "truthy (JBool b) = b"
| "truthy (JNum n) = (n \<noteq> 0)"
| "truthy (JStr s) = (s \<noteq> [])"

definition js_or :: "jsval \<Rightarrow> jsval \<Rightarrow> jsval" where
  \<comment> \<open>\<open>a || b\<close>\<close>
  "js_or a b = (if truthy a then a else b)"

type_synonym obj = "(string \<times> jsval) list"

definition get_prop :: "obj \<Rightarrow> string \<Rightarrow> jsval" where
  \<comment> \<open>Property read \<open>o.k\<close>: an absent property reads as \<open>undefined\<close>.\<close>
  "get_prop ob k = (case map_of ob k of None \<Rightarrow> JUndefined | Some v \<Rightarrow> v)"

definition delete_prop :: "string \<Rightarrow> obj \<Rightarrow> obj" where
  \<comment> \<open>\<open>delete o.k\<close>\<close>
  "delete_prop k ob = filter (\<lambda>kv. fst kv \<noteq> k) ob"

text \<open>
  Thrown values. \<open>HttpError status code message\<close> is the error object built by
  \<open>http-errors\<close>, which carries a \<open>status\<close> and a \<open>code\<close>.
\<close>

datatype js_error =
    ReferenceError string
  | TypeError string
  | Error string
  | HttpError nat string string

fun message :: "js_error \<Rightarrow> string" where
  "message (ReferenceError m) = m"
| "message (TypeError m) = m"
| "message (Error m) = m"
| "message (HttpError st c m) = m"

section \<open>HTTP responses\<close>

record identity =
  ident_id :: jsval
  ident_email :: jsval

record jwt =
  jwt_subject :: identity
  jwt_iat :: nat
  jwt_exp :: nat
  jwt_key :: string

datatype resp_body =
    ErrorBody string
  | MessageBody string
  | TokenBody jwt
  | UserBody obj

record response =
  status :: nat
  body :: resp_body

definition respond :: "nat \<Rightarrow> resp_body \<Rightarrow> response" where
  \<comment> \<open>\<open>res.status(n).json(b)\<close>; \<open>res.json(b)\<close> alone is \<open>respond 200 b\<close>.\<close>
  "respond n b = \<lparr>status = n, body = b\<rparr>"

section \<open>Configuration and the user model\<close>

text \<open>The environment variables read by the controller; an unset variable is \<open>None\<close>.\<close>

record env =
  DB_TYPE :: "string option"
  TYPEAUTH :: "string option"
  JWTSECRET :: "string option"

text \<open>
  The two query shapes passed to \<open>UserModel.findOne\<close>: \<open>{ email }\<close> for the document
  store and \<open>{ where: { email } }\<close> for the relational one.
\<close>

datatype query = Filter jsval | Where jsval

text \<open>
  \<open>UserModel\<close> is loaded from \<open>../models/UserMongo.js\<close> or \<open>../models/UserMysql.js\<close>.
  The controller uses four of its operations, which are parameters here, over a database
  state \<open>'db\<close>. Every operation may reject with an error. \<open>findOne\<close> resolves to a
  document or \<open>null\<close>; \<open>createDoc\<close> is \<open>UserModel.create\<close> and returns the stored
  document with the new database state.
\<close>

record 'db user_model =
  findOne :: "'db \<Rightarrow> query \<Rightarrow> js_error + obj option"
  createDoc :: "'db \<Rightarrow> obj \<Rightarrow> js_error + (obj \<times> 'db)"
  toJSON :: "obj \<Rightarrow> obj"
  comparePassword :: "obj \<Rightarrow> jsval \<Rightarrow> js_error + bool"

section \<open>Validation of registration data\<close>

definition is_space :: "char \<Rightarrow> bool" where
  \<comment> \<open>The class \<open>\s\<close> on single-byte characters: tab, line feed, vertical tab, form feed,
      carriage return, space and the no-break space.\<close>
  "is_space c = (of_char c \<in> {9, 10, 11, 12, 13, 32, 160 :: nat})"

definition email_char :: "char \<Rightarrow> bool" where
  \<comment> \<open>The class \<open>[^\s@]\<close>\<close>
  "email_char c = (\<not> is_space c \<and> c \<noteq> CHR ''@'')"

definition emailRegex_test :: "string \<Rightarrow> bool" where
  \<comment> \<open>\<open>/^[^\s@]+@[^\s@]+\.[^\s@]+$/.test(s)\<close>: a non-empty run of class characters, one
      \<open>@\<close>, then class characters to the end of the string with a dot that is neither the
      first nor the last of them. The class contains the dot, so any such dot serves.\<close>
  "emailRegex_test s =
     (let local_part = takeWhile email_char s; rest = dropWhile email_char s
      in local_part \<noteq> [] \<and>
         (case rest of
            [] \<Rightarrow> False
          | c # domain \<Rightarrow>
              c = CHR ''@'' \<and> list_all email_char domain \<and>
              CHR ''.'' \<in> set (butlast (tl domain))))"

fun digit_char :: "nat \<Rightarrow> char" where
  "digit_char n = char_of (48 + n)"

fun decimal :: "nat \<Rightarrow> string" where
  "decimal n = (if n < 10 then [digit_char n] else decimal (n div 10) @ [digit_char (n mod 10)])"

declare decimal.simps [simp del]

fun toString :: "jsval \<Rightarrow> string" where
  \<comment> \<open>The string conversion applied by \<open>RegExp.prototype.test\<close> to its argument.\<close>
  "toString JUndefined = ''undefined''"
| "toString JNull = ''null''"
| "toString (JBool b) = (if b then ''true'' else ''false'')"
| "toString (JNum n) = (if n < 0 then CHR ''-'' # decimal (nat (- n)) else decimal (nat n))"
| "toString (JStr s) = s"

fun length_lt :: "jsval \<Rightarrow> int \<Rightarrow> bool" where
  \<comment> \<open>\<open>v.length < n\<close> for a truthy \<open>v\<close>: numbers and booleans have no \<open>length\<close>, and
      \<open>undefined < n\<close> is false.\<close>
  "length_lt (JStr s) n = (int (length s) < n)"
| "length_lt v n = False"

definition validateUserData :: "obj \<Rightarrow> js_error + unit" where
  "validateUserData userData =
     (let name = get_prop userData ''name''; surname = get_prop userData ''surname'';
          email = get_prop userData ''email''; password = get_prop userData ''password''
      in if \<not> truthy name \<or> \<not> truthy surname \<or> \<not> truthy email \<or> \<not> truthy password
         then Inl (Error ''All fields (name, surname, email, password) are required.'')
         else if \<not> emailRegex_test (toString email)
         then Inl (Error ''Invalid email format.'')
         else if length_lt password 8
         then Inl (Error ''Password must be at least 8 characters long.'')
         else Inr ())"

section \<open>Identifier resolution\<close>

text \<open>
  A call \<open>f(args)\<close> of a bare identifier is resolved in the lexical scope of the call:
  the enclosing function's parameters and locals, then the module's top-level bindings.
  Methods of the enclosing class are not part of that scope; they are reached through
  \<open>this\<close> only. The module is an ES module, so an identifier bound nowhere is not
  created on the global object, whose standard properties have other names: the call
  throws a reference error. A binding is either a callable taking the argument object,
  or some other value.
\<close>

datatype binding = Callable "obj \<Rightarrow> js_error + unit" | Value

definition module_scope :: "(string \<times> binding) list" where
  \<comment> \<open>Top-level bindings of the controller module: its imports, \<open>let UserModel\<close> and the
      class declaration.\<close>
  "module_scope =
     [(''jwt'', Value), (''logger'', Value), (''dotenvExpand'', Value),
      (''UserModel'', Value), (''UserController'', Value)]"

definition create_scope :: "(string \<times> binding) list" where
  \<comment> \<open>Parameters and locals of \<open>create\<close>, in front of the module's bindings.\<close>
  "create_scope =
     [(''req'', Value), (''res'', Value), (''userData'', Value),
      (''name'', Value), (''surname'', Value), (''email'', Value), (''password'', Value),
      (''bio'', Value), (''profilePicture'', Value), (''birthDate'', Value), (''role'', Value),
      (''existingUser'', Value), (''newUser'', Value), (''createdUser'', Value),
      (''userResponse'', Value)] @ module_scope"

definition call_identifier :: "(string \<times> binding) list \<Rightarrow> string \<Rightarrow> obj \<Rightarrow> js_error + unit" where
  "call_identifier scope f arg =
     (case map_of scope f of
        None \<Rightarrow> Inl (ReferenceError (f @ '' is not defined''))
      | Some Value \<Rightarrow> Inl (TypeError (f @ '' is not a function''))
      | Some (Callable g) \<Rightarrow> g arg)"

section \<open>Registration: \<open>UserController.create\<close>\<close>

definition find_by_email :: "env \<Rightarrow> 'db user_model \<Rightarrow> 'db \<Rightarrow> jsval \<Rightarrow> js_error + obj option" where
  \<comment> \<open>The lookup shared by \<open>create\<close> and \<open>validateUser\<close>: with any other \<open>DB_TYPE\<close> the
      variable stays \<open>undefined\<close>, which is as falsy as \<open>null\<close>.\<close>
  "find_by_email e M db email =
     (if DB_TYPE e = Some ''mongo'' then findOne M db (Filter email)
      else if DB_TYPE e = Some ''mysql'' then findOne M db (Where email)
      else Inr None)"

definition undefined_toJSON :: js_error where
  "undefined_toJSON =
     TypeError (''Cannot read properties of undefined (reading '' @ [char_of (39::nat)] @
                ''toJSON'' @ [char_of (39::nat)] @ '')'')"

definition create_body :: "env \<Rightarrow> 'db user_model \<Rightarrow> 'db \<Rightarrow> obj \<Rightarrow> (js_error + response) \<times> 'db" where
  \<comment> \<open>The \<open>try\<close> block from the destructuring of \<open>req.body\<close> on: \<open>Inl\<close> is a thrown
      error, \<open>Inr\<close> a returned response; the second component is the database state.\<close>
  "create_body e M db b =
     (let name = get_prop b ''name''; surname = get_prop b ''surname''; email = get_prop b ''email'';
          password = get_prop b ''password''; bio = get_prop b ''bio'';
          profilePicture = get_prop b ''profilePicture''; birthDate = get_prop b ''birthDate'';
          role = get_prop b ''role''
      in case call_identifier create_scope ''validateUserData''
                [(''name'', name), (''surname'', surname), (''email'', email),
                 (''password'', password)] of
           Inl err \<Rightarrow> (Inl err, db)
         | Inr _ \<Rightarrow>
            (case find_by_email e M db email of
               Inl err \<Rightarrow> (Inl err, db)
             | Inr (Some existingUser) \<Rightarrow>
                 (Inr (respond 400 (ErrorBody ''User with this email already exists.'')), db)
             | Inr None \<Rightarrow>
                 (let newUser =
                        [(''name'', name), (''surname'', surname), (''email'', email),
                         (''password'', password), (''bio'', bio),
                         (''profilePicture'', profilePicture), (''birthDate'', birthDate),
                         (''role'', js_or role (JStr ''User''))]
                  in if DB_TYPE e = Some ''mongo'' \<or> DB_TYPE e = Some ''mysql''
                     then (case createDoc M db newUser of
                             Inl err \<Rightarrow> (Inl err, db)
                           | Inr (createdUser, db') \<Rightarrow>
                               (Inr (respond 201
                                  (UserBody (delete_prop ''password'' (toJSON M createdUser)))),
                                db'))
                     else (Inl undefined_toJSON, db))))"

definition create_try ::
  "env \<Rightarrow> 'db user_model \<Rightarrow> 'db \<Rightarrow> obj option \<Rightarrow> (js_error + response) \<times> 'db" where
  \<comment> \<open>The whole \<open>try\<close> block, on \<open>req.body\<close> (\<open>None\<close> when it is missing). The calls of
      the logger at its head send nothing and change nothing.\<close>
  "create_try e M db req_body =
     (case req_body of
        None \<Rightarrow> (Inr (respond 400 (ErrorBody ''Request body is missing.'')), db)
      | Some b \<Rightarrow> create_body e M db b)"

definition create :: "env \<Rightarrow> 'db user_model \<Rightarrow> 'db \<Rightarrow> obj option \<Rightarrow> response \<times> 'db" where
  \<comment> \<open>\<open>create(req, res)\<close>: the response sent and the database state afterwards. The
      \<open>catch\<close> branch answers a thrown error with status 400 and its message.\<close>
  "create e M db req_body =
     (case create_try e M db req_body of
        (Inr r, db') \<Rightarrow> (r, db')
      | (Inl err, db') \<Rightarrow> (respond 400 (ErrorBody (message err)), db'))"

section \<open>Login: \<open>UserController.validateUser\<close> and \<open>UserController.login\<close>\<close>

definition validateUser ::
  "env \<Rightarrow> 'db user_model \<Rightarrow> 'db \<Rightarrow> jsval \<Rightarrow> jsval \<Rightarrow> js_error + obj option" where
  \<comment> \<open>Resolves to the user document, or to \<open>null\<close> (\<open>None\<close>) when no user was found or the
      password does not match; an error of the store is thrown again.\<close>
  "validateUser e M db email password =
     (case find_by_email e M db email of
        Inl err \<Rightarrow> Inl err
      | Inr None \<Rightarrow> Inr None
      | Inr (Some u) \<Rightarrow>
          (case comparePassword M u password of
             Inl err \<Rightarrow> Inl err
           | Inr matches \<Rightarrow> Inr (if matches then Some u else None)))"

text \<open>
  \<open>jwt.sign(payload, secret, { expiresIn })\<close> of the \<open>jsonwebtoken\<close> package, by its
  documented contract: the token carries the payload, the issue time \<open>iat\<close> in seconds
  and \<open>exp = iat + span\<close>, where a string \<open>expiresIn\<close> is a time span read by the \<open>ms\<close>
  package and taken in whole seconds. Of the formats of \<open>ms\<close>, a decimal number followed
  by one of the units \<open>ms\<close>, \<open>s\<close>, \<open>m\<close>, \<open>h\<close> and \<open>d\<close> is modelled. The signature is
  represented by the key it was made with.
\<close>

definition digit_val :: "char \<Rightarrow> nat option" where
  "digit_val c = (let n = (of_char c :: nat) in if 48 \<le> n \<and> n \<le> 57 then Some (n - 48) else None)"

fun parse_digits :: "nat \<Rightarrow> string \<Rightarrow> nat \<times> string" where
  \<comment> \<open>Reads the leading digits of a string: their value and the rest.\<close>
  "parse_digits acc [] = (acc, [])"
| "parse_digits acc (c # cs) =
     (case digit_val c of
        None \<Rightarrow> (acc, c # cs)
      | Some d \<Rightarrow> parse_digits (10 * acc + d) cs)"

definition unit_ms :: "string \<Rightarrow> nat option" where
  "unit_ms u =
     (if u = ''ms'' then Some 1
      else if u = ''s'' then Some 1000
      else if u = ''m'' then Some 60000
      else if u = ''h'' then Some 3600000
      else if u = ''d'' then Some 86400000
      else None)"

definition ms :: "string \<Rightarrow> nat option" where
  "ms s =
     (case s of
        [] \<Rightarrow> None
      | c # cs \<Rightarrow>
          (if digit_val c = None then None
           else (case parse_digits 0 s of (n, u) \<Rightarrow> map_option (\<lambda>k. n * k) (unit_ms u))))"

definition jwt_sign :: "identity \<Rightarrow> string \<Rightarrow> string \<Rightarrow> nat \<Rightarrow> js_error + jwt" where
  "jwt_sign payload secret expiresIn now =
     (case ms expiresIn of
        None \<Rightarrow> Inl (Error ''invalid expiresIn option'')
      | Some span \<Rightarrow>
          Inr \<lparr>jwt_subject = payload, jwt_iat = now, jwt_exp = now + span div 1000,
               jwt_key = secret\<rparr>)"

text \<open>The session object \<open>req.session\<close>, with the two properties the application writes.\<close>

record session =
  csrfSecret :: jsval
  session_user :: "identity option"

definition fresh_session :: session where
  \<comment> \<open>The session object of a request that came without a session.\<close>
  "fresh_session = \<lparr>csrfSecret = JUndefined, session_user = None\<rparr>"

definition signing_secret :: "env \<Rightarrow> string" where
  \<comment> \<open>\<open>process.env.JWTSECRET || "defaultsecret"\<close>\<close>
  "signing_secret e =
     (case JWTSECRET e of
        None \<Rightarrow> ''defaultsecret''
      | Some s \<Rightarrow> if s = [] then ''defaultsecret'' else s)"

definition user_identity :: "obj \<Rightarrow> identity" where
  \<comment> \<open>\<open>{ id: user.id || user._id, email: user.email }\<close>\<close>
  "user_identity u =
     \<lparr>ident_id = js_or (get_prop u ''id'') (get_prop u ''_id''),
      ident_email = get_prop u ''email''\<rparr>"

definition undefined_body :: js_error where
  \<comment> \<open>The error of destructuring \<open>email\<close> out of an undefined \<open>req.body\<close>.\<close>
  "undefined_body =
     TypeError (''Cannot destructure property '' @ [char_of (39::nat)] @ ''email'' @
                [char_of (39::nat)] @ '' of '' @ [char_of (39::nat)] @ ''req.body'' @
                [char_of (39::nat)] @ '' as it is undefined.'')"

definition login ::
  "env \<Rightarrow> 'db user_model \<Rightarrow> 'db \<Rightarrow> nat \<Rightarrow> obj option \<Rightarrow> session
     \<Rightarrow> js_error + (response \<times> session)" where
  \<comment> \<open>\<open>login(req, res)\<close>, called as a method of the controller, on \<open>req.body\<close> and
      \<open>req.session\<close>, at clock reading \<open>now\<close> (seconds): \<open>Inl\<close> is a rejection of the
      returned promise, \<open>Inr\<close> the response sent with the session object afterwards.\<close>
  "login e M db now req_body sess =
     (case req_body of
        None \<Rightarrow> Inl undefined_body
      | Some b \<Rightarrow>
          (case validateUser e M db (get_prop b ''email'') (get_prop b ''password'') of
             Inl err \<Rightarrow> Inl err
           | Inr None \<Rightarrow> Inr (respond 401 (ErrorBody ''Invalid email or password''), sess)
           | Inr (Some u) \<Rightarrow>
               (if TYPEAUTH e = Some ''JWT'' then
                  (case jwt_sign (user_identity u) (signing_secret e) ''1h'' now of
                     Inl err \<Rightarrow> Inl err
                   | Inr token \<Rightarrow> Inr (respond 200 (TokenBody token), sess))
                else if TYPEAUTH e = Some ''session'' then
                  Inr (respond 200 (MessageBody ''Logged in successfully''),
                       sess\<lparr>session_user := Some (user_identity u)\<rparr>)
                else Inr (respond 500 (ErrorBody ''Invalid authentication type''), sess))))"

section \<open>Sessions and the CSRF secret\<close>

text \<open>
  The state of one request as the middleware sees it: the method, the session object, the
  record the session store holds for this session (\<open>None\<close> for a session that was never
  saved), the property \<open>req.cookies\<close>, the CSRF token in the header of the request, and
  \<open>res.locals.csrfToken\<close>. Node delivers a request without a \<open>cookies\<close> property; it is
  defined (\<open>Some\<close>) only once a cookie parser has run on the request.
\<close>

record request =
  req_method :: string
  req_session :: session
  store_entry :: "session option"
  req_cookies :: "obj option"
  csrf_header :: "string option"
  locals_csrfToken :: "string option"

text \<open>
  A write to the session store either succeeds or reports an error; which of the two is
  decided by the store, a parameter \<open>store_set\<close> from the session written to the error.
\<close>

definition session_save :: "(session \<Rightarrow> js_error option) \<Rightarrow> request \<Rightarrow> js_error option \<times> request" where
  \<comment> \<open>\<open>req.session.save(callback)\<close>: the error handed to the callback, and the request
      with the store's record replaced on success.\<close>
  "session_save store_set r =
     (case store_set (req_session r) of
        None \<Rightarrow> (None, r\<lparr>store_entry := Some (req_session r)\<rparr>)
      | Some err \<Rightarrow> (Some err, r))"

definition session_end :: "(session \<Rightarrow> js_error option) \<Rightarrow> request \<Rightarrow> request" where
  \<comment> \<open>What \<open>express-session\<close>, configured with \<open>resave: false\<close> and
      \<open>saveUninitialized: false\<close>, does when the response ends: a saved session is
      written to the store when it differs from the stored record, a session never saved
      when it was modified; an error of that write is logged and the response is sent all
      the same.\<close>
  "session_end store_set r =
     (case store_entry r of
        None \<Rightarrow> if req_session r = fresh_session then r else snd (session_save store_set r)
      | Some s \<Rightarrow> if req_session r = s then r else snd (session_save store_set r))"

definition hex_digit :: "nat \<Rightarrow> char" where
  "hex_digit n = ''0123456789abcdef'' ! (n mod 16)"

definition hex_byte :: "8 word \<Rightarrow> string" where
  "hex_byte b = [hex_digit (unat b div 16), hex_digit (unat b mod 16)]"

definition to_hex :: "8 word list \<Rightarrow> string" where
  \<comment> \<open>\<open>buffer.toString('hex')\<close>\<close>
  "to_hex bs = concat (map hex_byte bs)"

section \<open>The middleware chain\<close>

text \<open>
  A middleware ends in one of three ways: it calls \<open>next()\<close>, it calls \<open>next(err)\<close> (or
  throws), or it sends the response.
\<close>

datatype 'a outcome = Next 'a | NextErr js_error 'a | Done response 'a

text \<open>
  \<open>app.use\<close> registers a layer: a middleware \<open>(req, res, next)\<close>, or an error-handling
  middleware \<open>(err, req, res, next)\<close>. Each layer has a name for the trace.
\<close>

datatype 'a layer =
    Middleware string "'a \<Rightarrow> 'a outcome"
  | ErrorMiddleware string "js_error \<Rightarrow> 'a \<Rightarrow> 'a outcome"

fun dispatch :: "'a layer list \<Rightarrow> 'a outcome \<Rightarrow> string list \<Rightarrow> 'a outcome \<times> string list" where
  \<comment> \<open>Express runs the layers in registration order. While no error is pending it skips
      the error-handling layers; once \<open>next(err)\<close> was called it skips the others. The
      result is the last outcome with the names of the layers that ran.\<close>
  "dispatch [] oc tr = (oc, tr)"
| "dispatch (l # ls) (Done r s) tr = (Done r s, tr)"
| "dispatch (Middleware n h # ls) (Next s) tr = dispatch ls (h s) (tr @ [n])"
| "dispatch (Middleware n h # ls) (NextErr err s) tr = dispatch ls (NextErr err s) tr"
| "dispatch (ErrorMiddleware n h # ls) (Next s) tr = dispatch ls (Next s) tr"
| "dispatch (ErrorMiddleware n h # ls) (NextErr err s) tr = dispatch ls (h err s) (tr @ [n])"

definition run_layers :: "'a layer list \<Rightarrow> 'a \<Rightarrow> 'a outcome \<times> string list" where
  "run_layers ls s = dispatch ls (Next s) []"

definition csrfSecretInit ::
  "(nat \<Rightarrow> 8 word list) \<Rightarrow> (session \<Rightarrow> js_error option) \<Rightarrow> request \<Rightarrow> request outcome" where
  \<comment> \<open>The middleware that initialises \<open>req.session.csrfSecret\<close>; \<open>randomBytes\<close> is
      \<open>crypto.randomBytes\<close>.\<close>
  "csrfSecretInit randomBytes store_set r =
     (if \<not> truthy (csrfSecret (req_session r)) then
        (let r1 = r\<lparr>req_session := (req_session r)\<lparr>csrfSecret := JStr (to_hex (randomBytes 32))\<rparr>\<rparr>
         in case session_save store_set r1 of
              (Some err, r2) \<Rightarrow> NextErr err r2
            | (None, r2) \<Rightarrow> Next r2)
      else Next r)"

definition ignoredMethods :: "string list" where
  "ignoredMethods = [''GET'', ''HEAD'', ''OPTIONS'']"

definition getSecret :: "request \<Rightarrow> jsval" where
  "getSecret r = csrfSecret (req_session r)"

definition invalidCsrfTokenError :: js_error where
  "invalidCsrfTokenError = HttpError 403 ''EBADCSRFTOKEN'' ''invalid csrf token''"

definition cookieName :: string where
  "cookieName = ''csrf-token''"

definition cookies_undefined :: js_error where
  \<comment> \<open>The error of reading a property of \<open>undefined\<close>.\<close>
  "cookies_undefined =
     TypeError (''Cannot read properties of undefined (reading '' @ [char_of (39::nat)] @
                cookieName @ [char_of (39::nat)] @ '')'')"

definition getCsrfCookieFromRequest :: "request \<Rightarrow> js_error + jsval" where
  \<comment> \<open>\<open>req.cookies[cookieName]\<close>, as the package reads its cookie: a throw when
      \<open>req.cookies\<close> is undefined.\<close>
  "getCsrfCookieFromRequest r =
     (case req_cookies r of
        None \<Rightarrow> Inl cookies_undefined
      | Some cs \<Rightarrow> Inr (get_prop cs cookieName))"

definition doubleCsrfProtection :: "(jsval \<Rightarrow> request \<Rightarrow> bool) \<Rightarrow> request \<Rightarrow> request outcome" where
  \<comment> \<open>The middleware returned by \<open>doubleCsrf\<close> of the \<open>csrf-csrf\<close> package for the options
      given. A request with an ignored method passes. For any other the package reads
      its cookie from \<open>req.cookies\<close>; a throw there reaches the error handlers, as every
      throw of a middleware does. A cookie that is not a string fails the check; for a
      string, \<open>validatePair\<close> is the package's comparison of the cookie and the token of the
      request with the secret. A request that fails the check is handed to the error
      handlers with the package's 403 error.\<close>
  "doubleCsrfProtection validatePair r =
     (if req_method r \<in> set ignoredMethods then Next r
      else (case getCsrfCookieFromRequest r of
              Inl err \<Rightarrow> NextErr err r
            | Inr (JStr c) \<Rightarrow>
                if validatePair (getSecret r) r then Next r
                else NextErr invalidCsrfTokenError r
            | Inr _ \<Rightarrow> NextErr invalidCsrfTokenError r))"

definition csrfTokenLocals :: "(request \<Rightarrow> js_error + string) \<Rightarrow> request \<Rightarrow> request outcome" where
  \<comment> \<open>\<open>res.locals.csrfToken = generateToken(req, res); next()\<close>, where a throw of
      \<open>generateToken\<close> reaches the error handlers.\<close>
  "csrfTokenLocals generateToken r =
     (case generateToken r of
        Inl err \<Rightarrow> NextErr err r
      | Inr t \<Rightarrow> Next (r\<lparr>locals_csrfToken := Some t\<rparr>))"

definition csrf_layers ::
  "(nat \<Rightarrow> 8 word list) \<Rightarrow> (session \<Rightarrow> js_error option) \<Rightarrow> (jsval \<Rightarrow> request \<Rightarrow> bool)
     \<Rightarrow> (request \<Rightarrow> js_error + string) \<Rightarrow> request layer list" where
  \<comment> \<open>The three layers registered by \<open>setupCSRFProtection\<close>, in order.\<close>
  "csrf_layers randomBytes store_set validateRequest generateToken =
     [Middleware ''csrfSecretInit'' (csrfSecretInit randomBytes store_set),
      Middleware ''doubleCsrfProtection'' (doubleCsrfProtection validateRequest),
      Middleware ''csrfTokenLocals'' (csrfTokenLocals generateToken)]"

definition checkCSRFError :: "js_error \<Rightarrow> request \<Rightarrow> request outcome" where
  \<comment> \<open>Modelled from the spec: \<open>checkCSRFError\<close> of \<open>src/middlewares/middleware.js\<close>, which
      is not among the sources. The specification has a request that fails the CSRF
      verification rejected with a CSRF error of the HTTP 403 class before it reaches the
      route handlers; any other error stays pending for the final error handler.\<close>
  "checkCSRFError err r =
     (case err of
        HttpError st code msg \<Rightarrow>
          (if code = ''EBADCSRFTOKEN'' then Done (respond 403 (ErrorBody msg)) r
           else NextErr err r)
      | _ \<Rightarrow> NextErr err r)"

definition global_layers ::
  "(request \<Rightarrow> request outcome) \<Rightarrow> (request \<Rightarrow> request outcome) \<Rightarrow> request layer list" where
  \<comment> \<open>The layers registered by \<open>setupGlobalMiddlewaresAndRoutes\<close>. \<open>middleWareGlobal\<close> and
      the router \<open>routes\<close> are not among the sources and are parameters.\<close>
  "global_layers middleWareGlobal routes =
     [Middleware ''middleWareGlobal'' middleWareGlobal,
      ErrorMiddleware ''checkCSRFError'' checkCSRFError,
      Middleware ''routes'' routes]"

definition app_layers ::
  "(nat \<Rightarrow> 8 word list) \<Rightarrow> (session \<Rightarrow> js_error option) \<Rightarrow> (jsval \<Rightarrow> request \<Rightarrow> bool)
     \<Rightarrow> (request \<Rightarrow> js_error + string)
     \<Rightarrow> (request \<Rightarrow> request outcome) \<Rightarrow> (request \<Rightarrow> request outcome) \<Rightarrow> request layer list" where
  \<comment> \<open>\<open>setupCSRFProtection(); setupGlobalMiddlewaresAndRoutes()\<close>\<close>
  "app_layers randomBytes store_set validateRequest generateToken middleWareGlobal routes =
     csrf_layers randomBytes store_set validateRequest generateToken
     @ global_layers middleWareGlobal routes"

definition incoming_request ::
  "string \<Rightarrow> session \<Rightarrow> session option \<Rightarrow> string option \<Rightarrow> request" where
  \<comment> \<open>A request as it reaches the layers of \<open>setupCSRFProtection\<close>. The layers registered
      before them are \<open>helmet\<close>, the two body parsers, the static files, the rate limiter,
      \<open>cors\<close>, the session and \<open>flash\<close>: no cookie parser is among them (none is imported),
      and none of them defines \<open>req.cookies\<close>. So the property is undefined, whatever
      cookies the client sent.\<close>
  "incoming_request m s entry token =
     \<lparr>req_method = m, req_session = s, store_entry = entry, req_cookies = None,
      csrf_header = token, locals_csrfToken = None\<rparr>"

fun error_status :: "js_error \<Rightarrow> nat" where
  \<comment> \<open>The status with which the final handler of Express answers a pending error: the
      \<open>status\<close> of the error when it is a 4xx or 5xx one, else 500.\<close>
  "error_status (HttpError st code msg) = (if 400 \<le> st \<and> st < 600 then st else 500)"
| "error_status err = 500"

fun final_status :: "'a outcome \<Rightarrow> nat" where
  \<comment> \<open>The status of the response once the layers are through: that of the response sent,
      404 when no layer answered, the error's status when an error is still pending.\<close>
  "final_status (Done resp s) = status resp"
| "final_status (Next s) = 404"
| "final_status (NextErr err s) = error_status err"

section \<open>An in-memory user model and sample data\<close>

text \<open>
  A user model over a list of documents, on which the controller can be run: \<open>findOne\<close>
  returns the first document with the email asked for, \<open>create\<close> appends the document
  with the next number as its \<open>id\<close>, and a password matches when it equals the stored
  \<open>password\<close> property.
\<close>

fun query_email :: "query \<Rightarrow> jsval" where
  "query_email (Filter v) = v"
| "query_email (Where v) = v"

definition memory_model :: "obj list user_model" where
  "memory_model =
     \<lparr>findOne = (\<lambda>db q. Inr (find (\<lambda>u. get_prop u ''email'' = query_email q) db)),
      createDoc = (\<lambda>db u. let d = (''id'', JNum (int (length db) + 1)) # u in Inr (d, db @ [d])),
      toJSON = (\<lambda>u. u),
      comparePassword = (\<lambda>u p. Inr (get_prop u ''password'' = p))\<rparr>"

definition mongo_env :: "string \<Rightarrow> env" where
  \<comment> \<open>The document store with a given \<open>TYPEAUTH\<close> and no \<open>JWTSECRET\<close>.\<close>
  "mongo_env auth = \<lparr>DB_TYPE = Some ''mongo'', TYPEAUTH = Some auth, JWTSECRET = None\<rparr>"

definition alice :: obj where
  "alice =
     [(''id'', JNum 1), (''name'', JStr ''A''), (''surname'', JStr ''B''),
      (''email'', JStr ''a@b.com''), (''password'', JStr ''longenough''),
      (''role'', JStr ''User'')]"

definition registration :: "string \<Rightarrow> string \<Rightarrow> string \<Rightarrow> string \<Rightarrow> obj" where
  "registration n s e p =
     [(''name'', JStr n), (''surname'', JStr s), (''email'', JStr e), (''password'', JStr p)]"

definition credentials :: "string \<Rightarrow> string \<Rightarrow> obj" where
  "credentials e p = [(''email'', JStr e), (''password'', JStr p)]"

definition sample_request :: "string \<Rightarrow> session \<Rightarrow> request" where
  "sample_request m s =
     \<lparr>req_method = m, req_session = s, store_entry = None, req_cookies = None,
      csrf_header = None, locals_csrfToken = None\<rparr>"

definition header_matches :: "jsval \<Rightarrow> request \<Rightarrow> bool" where
  \<comment> \<open>A stand-in for the package's check: the header must repeat the secret.\<close>
  "header_matches secret r = (case csrf_header r of None \<Rightarrow> False | Some t \<Rightarrow> secret = JStr t)"

section \<open>Properties of the validation\<close>

lemma email_char_dot: "email_char CHR ''.''"
  by (simp add: email_char_def is_space_def)

lemma email_char_at: "\<not> email_char CHR ''@''"
  by (simp add: email_char_def)

text \<open>
  The test of the email pattern is the language of the regular expression: a string
  matches exactly when it splits into three non-empty runs of class characters around one
  \<open>@\<close> and one dot.
\<close>

lemma emailRegex_test_iff:
  "emailRegex_test s \<longleftrightarrow>
     (\<exists>a b c. s = a @ ''@'' @ b @ ''.'' @ c \<and> a \<noteq> [] \<and> b \<noteq> [] \<and> c \<noteq> [] \<and>
        list_all email_char a \<and> list_all email_char b \<and> list_all email_char c)"
proof
  assume t: "emailRegex_test s"
  define a where "a = takeWhile email_char s"
  define rest where "rest = dropWhile email_char s"
  from t have a_ne: "a \<noteq> []"
    and rest_case: "(case rest of [] \<Rightarrow> False
        | c # domain \<Rightarrow> c = CHR ''@'' \<and> list_all email_char domain \<and>
            CHR ''.'' \<in> set (butlast (tl domain)))"
    unfolding emailRegex_test_def a_def rest_def Let_def by blast+
  then obtain c0 domain where rest_eq: "rest = c0 # domain" by (cases rest) auto
  with rest_case have c0: "c0 = CHR ''@''" and dom_ok: "list_all email_char domain"
    and dot: "CHR ''.'' \<in> set (butlast (tl domain))"
    by simp_all
  from dot obtain xs ys where bl: "butlast (tl domain) = xs @ CHR ''.'' # ys"
    by (auto simp: in_set_conv_decomp)
  then have tl_ne: "tl domain \<noteq> []" by auto
  then obtain d0 where dom_eq: "domain = d0 # tl domain" by (cases domain) auto
  from tl_ne have "tl domain = butlast (tl domain) @ [last (tl domain)]" by simp
  with bl have tl_eq: "tl domain = xs @ CHR ''.'' # ys @ [last (tl domain)]" by simp
  define b where "b = d0 # xs"
  define c where "c = ys @ [last (tl domain)]"
  have dom_split: "domain = b @ ''.'' @ c" using dom_eq tl_eq by (simp add: b_def c_def)
  moreover have "s = a @ rest" by (simp add: a_def rest_def)
  ultimately have s_eq: "s = a @ ''@'' @ b @ ''.'' @ c" using rest_eq c0 by simp
  have "list_all email_char a" by (simp add: a_def list_all_iff) (meson set_takeWhileD)
  moreover have "list_all email_char b" "list_all email_char c"
    using dom_ok dom_split by (auto simp: list_all_iff)
  ultimately show "\<exists>a b c. s = a @ ''@'' @ b @ ''.'' @ c \<and> a \<noteq> [] \<and> b \<noteq> [] \<and> c \<noteq> [] \<and>
        list_all email_char a \<and> list_all email_char b \<and> list_all email_char c"
    using s_eq a_ne by (intro exI[of _ a] exI[of _ b] exI[of _ c]) (simp add: b_def c_def)
next
  assume "\<exists>a b c. s = a @ ''@'' @ b @ ''.'' @ c \<and> a \<noteq> [] \<and> b \<noteq> [] \<and> c \<noteq> [] \<and>
        list_all email_char a \<and> list_all email_char b \<and> list_all email_char c"
  then obtain a b c where s_eq: "s = a @ CHR ''@'' # (b @ CHR ''.'' # c)"
    and ne: "a \<noteq> []" "b \<noteq> []" "c \<noteq> []"
    and ok: "list_all email_char a" "list_all email_char b" "list_all email_char c"
    by auto
  have tw: "takeWhile email_char s = a"
    using ok(1) unfolding s_eq by (simp add: list_all_iff email_char_at)
  have dw: "dropWhile email_char s = CHR ''@'' # (b @ CHR ''.'' # c)"
    using ok(1) unfolding s_eq by (simp add: list_all_iff email_char_at)
  have "butlast (tl (b @ CHR ''.'' # c)) = tl b @ CHR ''.'' # butlast c"
    using ne by (simp add: butlast_append)
  then have "CHR ''.'' \<in> set (butlast (tl (b @ CHR ''.'' # c)))" by simp
  then show "emailRegex_test s"
    using tw dw ne ok by (simp add: emailRegex_test_def email_char_dot)
qed

text \<open>On a body of four strings the method accepts exactly the well-formed registrations.\<close>

lemma validateUserData_strings:
  "validateUserData (registration n s e p) =
     (if n = [] \<or> s = [] \<or> e = [] \<or> p = []
      then Inl (Error ''All fields (name, surname, email, password) are required.'')
      else if \<not> emailRegex_test e then Inl (Error ''Invalid email format.'')
      else if length p < 8 then Inl (Error ''Password must be at least 8 characters long.'')
      else Inr ())"
  by (simp add: validateUserData_def registration_def get_prop_def)

lemma sample_email_ok: "emailRegex_test ''a@b.com''"
  by (simp add: emailRegex_test_def email_char_def is_space_def)

lemma sample_email_bad: "\<not> emailRegex_test ''a.b.com''"
  by (simp add: emailRegex_test_def email_char_def is_space_def)

section \<open>Properties of registration\<close>

lemma validateUserData_unbound: "map_of create_scope ''validateUserData'' = None"
  by (simp add: create_scope_def module_scope_def)

lemma create_body_throws:
  "create_body e M db b = (Inl (ReferenceError ''validateUserData is not defined''), db)"
  by (simp add: create_body_def call_identifier_def validateUserData_unbound)

lemma create_try_throws:
  "create_try e M db (Some b) = (Inl (ReferenceError ''validateUserData is not defined''), db)"
  by (simp add: create_try_def create_body_throws)

lemma create_try_returns:
  "create_try e M db None = (Inr (respond 400 (ErrorBody ''Request body is missing.'')), db)"
  by (simp add: create_try_def)

text \<open>
  Whatever the body, the call of the validator inside \<open>create\<close> throws, so \<open>create\<close>
  answers 400 with the message of that error and leaves the database as it was.
\<close>

lemma create_with_body:
  "create e M db (Some b) = (respond 400 (ErrorBody ''validateUserData is not defined''), db)"
  by (simp add: create_def create_try_throws)

lemma create_without_body:
  "create e M db None = (respond 400 (ErrorBody ''Request body is missing.''), db)"
  by (simp add: create_def create_try_returns)

lemma memory_lookup_empty:
  "find_by_email (mongo_env a) memory_model [] v = Inr None"
  by (simp add: find_by_email_def mongo_env_def memory_model_def)

lemma memory_lookup_alice:
  "find_by_email (mongo_env a) memory_model [alice] (JStr ''a@b.com'') = Inr (Some alice)"
  by (simp add: find_by_email_def mongo_env_def memory_model_def alice_def get_prop_def)

text \<open>
  C1, evaluated on the code. The registration of \<open>a@b.com\<close> with the password
  \<open>longenough\<close> passes the method \<open>validateUserData\<close> and its email is not in the empty
  store, yet \<open>create\<close> answers 400 with the message of the reference error and stores
  nothing, where the claim has 201 with the stored record.
\<close>

theorem create_valid_registration_rejected:
  "validateUserData (registration ''A'' ''B'' ''a@b.com'' ''longenough'') = Inr () \<and>
   find_by_email (mongo_env ''JWT'') memory_model [] (JStr ''a@b.com'') = Inr None \<and>
   create (mongo_env ''JWT'') memory_model []
       (Some (registration ''A'' ''B'' ''a@b.com'' ''longenough'')) =
     (respond 400 (ErrorBody ''validateUserData is not defined''), [])"
  by (simp add: validateUserData_strings sample_email_ok memory_lookup_empty create_with_body)

theorem create_valid_registration_rejected_witness:
  "status (fst (create (mongo_env ''JWT'') memory_model []
       (Some (registration ''A'' ''B'' ''a@b.com'' ''longenough'')))) = 400"
  using create_valid_registration_rejected by (simp add: respond_def)

text \<open>
  C2, as stated, fails on a request without a body: the \<open>try\<close> block returns at the
  check of \<open>req.body\<close> and throws nothing, so the response does not come from the
  \<open>catch\<close> branch, and the message sent is not the one of the reference error.
\<close>

theorem create_missing_body_counterexample:
  "create_try (mongo_env ''JWT'') memory_model [] None =
     (Inr (respond 400 (ErrorBody ''Request body is missing.'')), []) \<and>
   \<not> isl (fst (create_try (mongo_env ''JWT'') memory_model [] None)) \<and>
   create (mongo_env ''JWT'') memory_model [] None =
     (respond 400 (ErrorBody ''Request body is missing.''), []) \<and>
   fst (create (mongo_env ''JWT'') memory_model [] None) \<noteq>
     respond 400 (ErrorBody (message (ReferenceError ''validateUserData is not defined'')))"
  by (simp add: create_try_returns create_without_body respond_def)

text \<open>
  C2, amended. A request without a body is answered 400 at the check of \<open>req.body\<close>. For
  every request with a body, the call \<open>validateUserData(...)\<close> throws a reference error
  before any validation, since no binding of that name is in scope, and the \<open>catch\<close>
  branch answers 400 with the message of that error. So every call of \<open>create\<close> answers
  400, none answers 201, and none changes the store.
\<close>

theorem create_never_registers:
  "create e M db None = (respond 400 (ErrorBody ''Request body is missing.''), db) \<and>
   create_try e M db (Some b) =
     (Inl (ReferenceError ''validateUserData is not defined''), db) \<and>
   create e M db (Some b) =
     (respond 400 (ErrorBody (message (ReferenceError ''validateUserData is not defined''))), db) \<and>
   status (fst (create e M db req_body)) = 400 \<and>
   snd (create e M db req_body) = db"
  by (cases req_body) (simp_all add: create_with_body create_without_body create_try_throws respond_def)

theorem create_never_registers_witness:
  "status (fst (create (mongo_env ''session'') memory_model [alice]
       (Some (registration ''C'' ''D'' ''c@d.org'' ''password1'')))) = 400 \<and>
   snd (create (mongo_env ''session'') memory_model [alice]
       (Some (registration ''C'' ''D'' ''c@d.org'' ''password1''))) = [alice]"
  using create_never_registers
    [of "mongo_env ''session''" memory_model "[alice]" "[]"
        "Some (registration ''C'' ''D'' ''c@d.org'' ''password1'')"]
  by simp

text \<open>
  C7, evaluated on the code. A registration without a name, one with an email that does
  not match the pattern, and one with a password of five characters are each refused by
  the method \<open>validateUserData\<close> with the message of its kind. \<open>create\<close> answers 400 to
  each and stores nothing, but its message is that of the reference error, the same for
  the three.
\<close>

theorem create_invalid_input_message:
  "validateUserData (registration [] ''B'' ''a@b.com'' ''longenough'') =
     Inl (Error ''All fields (name, surname, email, password) are required.'') \<and>
   create (mongo_env ''JWT'') memory_model []
       (Some (registration [] ''B'' ''a@b.com'' ''longenough'')) =
     (respond 400 (ErrorBody ''validateUserData is not defined''), []) \<and>
   validateUserData (registration ''A'' ''B'' ''a.b.com'' ''longenough'') =
     Inl (Error ''Invalid email format.'') \<and>
   create (mongo_env ''JWT'') memory_model []
       (Some (registration ''A'' ''B'' ''a.b.com'' ''longenough'')) =
     (respond 400 (ErrorBody ''validateUserData is not defined''), []) \<and>
   validateUserData (registration ''A'' ''B'' ''a@b.com'' ''short'') =
     Inl (Error ''Password must be at least 8 characters long.'') \<and>
   create (mongo_env ''JWT'') memory_model []
       (Some (registration ''A'' ''B'' ''a@b.com'' ''short'')) =
     (respond 400 (ErrorBody ''validateUserData is not defined''), [])"
  by (simp add: validateUserData_strings sample_email_ok sample_email_bad create_with_body)

theorem create_invalid_input_message_witness:
  "body (fst (create (mongo_env ''JWT'') memory_model []
       (Some (registration ''A'' ''B'' ''a@b.com'' ''short'')))) =
     ErrorBody ''validateUserData is not defined''"
  using create_invalid_input_message by (simp add: respond_def)

text \<open>
  C8, evaluated on the code. With \<open>a@b.com\<close> registered, the lookup finds the record,
  yet a second registration of that email never reaches the lookup: \<open>create\<close> answers
  400 with the message of the reference error, not with the conflict message. Nothing is
  inserted.
\<close>

theorem create_duplicate_email_message:
  "find_by_email (mongo_env ''JWT'') memory_model [alice] (JStr ''a@b.com'') = Inr (Some alice) \<and>
   create (mongo_env ''JWT'') memory_model [alice]
       (Some (registration ''A'' ''B'' ''a@b.com'' ''longenough'')) =
     (respond 400 (ErrorBody ''validateUserData is not defined''), [alice])"
  by (simp add: memory_lookup_alice create_with_body)

theorem create_duplicate_email_message_witness:
  "body (fst (create (mongo_env ''JWT'') memory_model [alice]
       (Some (registration ''A'' ''B'' ''a@b.com'' ''longenough'')))) \<noteq>
     ErrorBody ''User with this email already exists.''"
  using create_duplicate_email_message by (simp add: respond_def)

section \<open>Properties of login\<close>

lemma ms_one_hour: "ms ''1h'' = Some 3600000"
  by (simp add: ms_def digit_val_def unit_ms_def)

lemma memory_validate_alice:
  "validateUser (mongo_env a) memory_model [alice] (JStr ''a@b.com'') (JStr ''longenough'') =
     Inr (Some alice)"
  by (simp add: validateUser_def memory_lookup_alice) (simp add: memory_model_def alice_def get_prop_def)

lemma alice_identity:
  "user_identity alice = \<lparr>ident_id = JNum 1, ident_email = JStr ''a@b.com''\<rparr>"
  by (simp add: user_identity_def alice_def get_prop_def js_or_def)

text \<open>
  C3. When the lookup finds no record for the email, or finds one whose password
  comparison answers false, \<open>login\<close> sends the same response: status 401 with the one
  message \<open>Invalid email or password\<close>, and the session is untouched. The response does
  not depend on which of the two happened.
\<close>

theorem login_invalid_credentials_indistinguishable:
  assumes "find_by_email e M db (get_prop b ''email'') = Inr None \<or>
           (\<exists>u. find_by_email e M db (get_prop b ''email'') = Inr (Some u) \<and>
                comparePassword M u (get_prop b ''password'') = Inr False)"
  shows "login e M db now (Some b) sess =
           Inr (respond 401 (ErrorBody ''Invalid email or password''), sess)"
  using assms by (auto simp: login_def validateUser_def)

theorem login_invalid_credentials_indistinguishable_witness:
  "login (mongo_env ''JWT'') memory_model [alice] 0
       (Some (credentials ''nobody@b.com'' ''longenough'')) fresh_session =
     Inr (respond 401 (ErrorBody ''Invalid email or password''), fresh_session) \<and>
   login (mongo_env ''JWT'') memory_model [alice] 0
       (Some (credentials ''a@b.com'' ''wrongpassword'')) fresh_session =
     Inr (respond 401 (ErrorBody ''Invalid email or password''), fresh_session)"
proof -
  have absent:
    "find_by_email (mongo_env ''JWT'') memory_model [alice]
       (get_prop (credentials ''nobody@b.com'' ''longenough'') ''email'') = Inr None"
    by (simp add: find_by_email_def mongo_env_def memory_model_def alice_def get_prop_def
        credentials_def)
  have mismatch:
    "\<exists>u. find_by_email (mongo_env ''JWT'') memory_model [alice]
            (get_prop (credentials ''a@b.com'' ''wrongpassword'') ''email'') = Inr (Some u) \<and>
         comparePassword memory_model u
            (get_prop (credentials ''a@b.com'' ''wrongpassword'') ''password'') = Inr False"
    by (simp add: find_by_email_def mongo_env_def memory_model_def alice_def get_prop_def
        credentials_def)
  show ?thesis
    using login_invalid_credentials_indistinguishable [OF disjI1, OF absent]
      login_invalid_credentials_indistinguishable [OF disjI2, OF mismatch]
    by simp
qed

text \<open>
  C4. When the credentials are valid and \<open>TYPEAUTH\<close> is \<open>JWT\<close>, \<open>login\<close> answers 200
  with a token signed with the server's secret, whose subject is the pair of the user's
  \<open>id\<close> (\<open>user.id || user._id\<close>) and \<open>email\<close>, issued at the time of the call and
  expiring exactly 3600 seconds later. The session of the request is left as it was.
\<close>

theorem login_jwt_token:
  assumes "validateUser e M db (get_prop b ''email'') (get_prop b ''password'') = Inr (Some u)"
    and "TYPEAUTH e = Some ''JWT''"
  shows "login e M db now (Some b) sess =
           Inr (respond 200
                  (TokenBody \<lparr>jwt_subject = \<lparr>ident_id = js_or (get_prop u ''id'') (get_prop u ''_id''),
                                              ident_email = get_prop u ''email''\<rparr>,
                              jwt_iat = now, jwt_exp = now + 3600,
                              jwt_key = signing_secret e\<rparr>),
                sess)"
  using assms by (simp add: login_def jwt_sign_def ms_one_hour user_identity_def)

theorem login_jwt_token_witness:
  "login (mongo_env ''JWT'') memory_model [alice] 1000
       (Some (credentials ''a@b.com'' ''longenough'')) fresh_session =
     Inr (respond 200
            (TokenBody \<lparr>jwt_subject = \<lparr>ident_id = JNum 1, ident_email = JStr ''a@b.com''\<rparr>,
                        jwt_iat = 1000, jwt_exp = 4600, jwt_key = ''defaultsecret''\<rparr>),
          fresh_session)"
proof -
  have valid:
    "validateUser (mongo_env ''JWT'') memory_model [alice]
       (get_prop (credentials ''a@b.com'' ''longenough'') ''email'')
       (get_prop (credentials ''a@b.com'' ''longenough'') ''password'') = Inr (Some alice)"
    using memory_validate_alice by (simp add: credentials_def get_prop_def)
  have mode: "TYPEAUTH (mongo_env ''JWT'') = Some ''JWT''"
    by (simp add: mongo_env_def)
  have key: "signing_secret (mongo_env ''JWT'') = ''defaultsecret''"
    by (simp add: signing_secret_def mongo_env_def)
  have who: "js_or (get_prop alice ''id'') (get_prop alice ''_id'') = JNum 1"
    "get_prop alice ''email'' = JStr ''a@b.com''"
    by (simp_all add: alice_def get_prop_def js_or_def)
  show ?thesis
    using login_jwt_token [OF valid mode, of 1000 fresh_session] by (simp add: key who)
qed

text \<open>
  C5, as stated, fails when the session store refuses the write. \<open>login\<close> never saves the
  session: the write is made by the session middleware when the response ends, and an
  error of it is only logged. With a store that reports an error, the login of a valid
  user in session mode is answered 200 \<open>Logged in successfully\<close> and the store holds no
  record of the session.
\<close>

theorem login_session_not_persisted_counterexample:
  "login (mongo_env ''session'') memory_model [alice] 1000
       (Some (credentials ''a@b.com'' ''longenough''))
       (req_session (sample_request ''POST'' fresh_session)) =
     Inr (respond 200 (MessageBody ''Logged in successfully''),
          \<lparr>csrfSecret = JUndefined,
           session_user = Some \<lparr>ident_id = JNum 1, ident_email = JStr ''a@b.com''\<rparr>\<rparr>) \<and>
   store_entry (session_end (\<lambda>s. Some (Error ''store unavailable''))
       ((sample_request ''POST'' fresh_session)
          \<lparr>req_session := \<lparr>csrfSecret = JUndefined,
             session_user = Some \<lparr>ident_id = JNum 1, ident_email = JStr ''a@b.com''\<rparr>\<rparr>\<rparr>)) =
     None"
proof -
  have valid:
    "validateUser (mongo_env ''session'') memory_model [alice]
       (JStr ''a@b.com'') (JStr ''longenough'') = Inr (Some alice)"
    by (rule memory_validate_alice)
  have answered:
    "login (mongo_env ''session'') memory_model [alice] 1000
       (Some (credentials ''a@b.com'' ''longenough''))
       (req_session (sample_request ''POST'' fresh_session)) =
     Inr (respond 200 (MessageBody ''Logged in successfully''),
          \<lparr>csrfSecret = JUndefined,
           session_user = Some \<lparr>ident_id = JNum 1, ident_email = JStr ''a@b.com''\<rparr>\<rparr>)"
    using valid
    by (simp add: login_def credentials_def get_prop_def mongo_env_def alice_identity
        sample_request_def fresh_session_def)
  have unsaved:
    "store_entry (session_end (\<lambda>s. Some (Error ''store unavailable''))
       ((sample_request ''POST'' fresh_session)
          \<lparr>req_session := \<lparr>csrfSecret = JUndefined,
             session_user = Some \<lparr>ident_id = JNum 1, ident_email = JStr ''a@b.com''\<rparr>\<rparr>\<rparr>)) =
     None"
    by (simp add: session_end_def session_save_def sample_request_def fresh_session_def)
  from answered unsaved show ?thesis by blast
qed

text \<open>
  C5, amended. When the credentials are valid and \<open>TYPEAUTH\<close> is \<open>session\<close>, \<open>login\<close>
  writes the pair of the user's \<open>id\<close> and \<open>email\<close> into the session of the request and
  answers 200 with the message \<open>Logged in successfully\<close>; the body is a message, so it
  holds no token. \<open>login\<close> does not save the session itself. When the response ends, the
  session middleware writes the session to the store: if the store accepts the write, its
  record is the session with the identity; if it refuses, the response is the same and
  the record is the one the store held before.
\<close>

theorem login_session_mode:
  assumes "validateUser e M db (get_prop b ''email'') (get_prop b ''password'') = Inr (Some u)"
    and "TYPEAUTH e = Some ''session''"
    and "sess' = (req_session r)\<lparr>session_user :=
                   Some \<lparr>ident_id = js_or (get_prop u ''id'') (get_prop u ''_id''),
                         ident_email = get_prop u ''email''\<rparr>\<rparr>"
  shows "login e M db now (Some b) (req_session r) =
           Inr (respond 200 (MessageBody ''Logged in successfully''), sess') \<and>
         store_entry (session_end store_set (r\<lparr>req_session := sess'\<rparr>)) =
           (if store_set sess' = None then Some sess' else store_entry r) \<and>
         (\<forall>t. MessageBody ''Logged in successfully'' \<noteq> TokenBody t)"
proof -
  have "sess' \<noteq> fresh_session"
    using assms(3) by (auto simp: fresh_session_def dest: arg_cong[where f = session_user])
  then have "store_entry (session_end store_set (r\<lparr>req_session := sess'\<rparr>)) =
      (if store_set sess' = None then Some sess' else store_entry r)"
    by (auto simp: session_end_def session_save_def split: option.splits)
  then show ?thesis
    using assms by (simp add: login_def user_identity_def)
qed

theorem login_session_mode_witness:
  "login (mongo_env ''session'') memory_model [alice] 1000
       (Some (credentials ''a@b.com'' ''longenough''))
       (req_session (sample_request ''POST'' fresh_session)) =
     Inr (respond 200 (MessageBody ''Logged in successfully''),
          \<lparr>csrfSecret = JUndefined,
           session_user = Some \<lparr>ident_id = JNum 1, ident_email = JStr ''a@b.com''\<rparr>\<rparr>) \<and>
   store_entry (session_end (\<lambda>s. None)
       ((sample_request ''POST'' fresh_session)
          \<lparr>req_session := \<lparr>csrfSecret = JUndefined,
             session_user = Some \<lparr>ident_id = JNum 1, ident_email = JStr ''a@b.com''\<rparr>\<rparr>\<rparr>)) =
     Some \<lparr>csrfSecret = JUndefined,
           session_user = Some \<lparr>ident_id = JNum 1, ident_email = JStr ''a@b.com''\<rparr>\<rparr>"
proof -
  have valid:
    "validateUser (mongo_env ''session'') memory_model [alice]
       (get_prop (credentials ''a@b.com'' ''longenough'') ''email'')
       (get_prop (credentials ''a@b.com'' ''longenough'') ''password'') = Inr (Some alice)"
    using memory_validate_alice by (simp add: credentials_def get_prop_def)
  have mode: "TYPEAUTH (mongo_env ''session'') = Some ''session''"
    by (simp add: mongo_env_def)
  have sess:
    "\<lparr>csrfSecret = JUndefined,
      session_user = Some \<lparr>ident_id = JNum 1, ident_email = JStr ''a@b.com''\<rparr>\<rparr> =
     (req_session (sample_request ''POST'' fresh_session))\<lparr>session_user :=
        Some \<lparr>ident_id = js_or (get_prop alice ''id'') (get_prop alice ''_id''),
              ident_email = get_prop alice ''email''\<rparr>\<rparr>"
    by (simp add: sample_request_def fresh_session_def alice_def get_prop_def js_or_def)
  show ?thesis
    using login_session_mode [OF valid mode sess, of 1000 "\<lambda>s. None"] by simp
qed

text \<open>
  C6. When the credentials are valid and \<open>TYPEAUTH\<close> is neither \<open>JWT\<close> nor \<open>session\<close>
  (or is not set), \<open>login\<close> answers with status 500 and the message
  \<open>Invalid authentication type\<close>, and leaves the session as it was.
\<close>

theorem login_misconfigured:
  assumes "validateUser e M db (get_prop b ''email'') (get_prop b ''password'') = Inr (Some u)"
    and "TYPEAUTH e \<noteq> Some ''JWT''"
    and "TYPEAUTH e \<noteq> Some ''session''"
  shows "login e M db now (Some b) sess =
           Inr (respond 500 (ErrorBody ''Invalid authentication type''), sess)"
  using assms by (simp add: login_def)

theorem login_misconfigured_witness:
  "login (mongo_env ''JWS'') memory_model [alice] 1000
       (Some (credentials ''a@b.com'' ''longenough'')) fresh_session =
     Inr (respond 500 (ErrorBody ''Invalid authentication type''), fresh_session)"
proof -
  have valid:
    "validateUser (mongo_env ''JWS'') memory_model [alice]
       (get_prop (credentials ''a@b.com'' ''longenough'') ''email'')
       (get_prop (credentials ''a@b.com'' ''longenough'') ''password'') = Inr (Some alice)"
    using memory_validate_alice by (simp add: credentials_def get_prop_def)
  have mode: "TYPEAUTH (mongo_env ''JWS'') \<noteq> Some ''JWT''"
    "TYPEAUTH (mongo_env ''JWS'') \<noteq> Some ''session''"
    by (simp_all add: mongo_env_def)
  show ?thesis
    using login_misconfigured [OF valid mode, of 1000 fresh_session] by simp
qed

section \<open>Properties of the CSRF secret and of the verification\<close>

text \<open>
  The hexadecimal rendering loses nothing: two digits per byte, and equal renderings come
  from equal byte lists.
\<close>

lemma hex_digit_inj: "m < 16 \<Longrightarrow> n < 16 \<Longrightarrow> hex_digit m = hex_digit n \<Longrightarrow> m = n"
proof -
  assume m: "m < 16" and n: "n < 16" and eq: "hex_digit m = hex_digit n"
  have d: "distinct ''0123456789abcdef''" by simp
  have l: "length ''0123456789abcdef'' = 16" by simp
  from eq have "''0123456789abcdef'' ! m = ''0123456789abcdef'' ! n"
    using m n by (simp add: hex_digit_def)
  with d l m n show "m = n" by (metis nth_eq_iff_index_eq)
qed

lemma hex_byte_inj: "hex_byte a = hex_byte b \<Longrightarrow> a = b"
proof -
  assume eq: "hex_byte a = hex_byte b"
  have "unat a < 256" and "unat b < 256"
    using unsigned_less[of a] unsigned_less[of b] by simp_all
  then have hi: "unat a div 16 < 16" "unat b div 16 < 16" by simp_all
  have lo: "unat a mod 16 < 16" "unat b mod 16 < 16" by simp_all
  from eq have "hex_digit (unat a div 16) = hex_digit (unat b div 16)"
    and "hex_digit (unat a mod 16) = hex_digit (unat b mod 16)"
    by (simp_all add: hex_byte_def)
  then have "unat a div 16 = unat b div 16" and "unat a mod 16 = unat b mod 16"
    using hex_digit_inj[OF hi] hex_digit_inj[OF lo] by blast+
  then have "unat a = unat b" by (metis div_mult_mod_eq)
  then show "a = b" by (simp add: word_unat_eq_iff)
qed

lemma to_hex_Cons: "to_hex (b # bs) = hex_byte b @ to_hex bs"
  by (simp add: to_hex_def)

lemma to_hex_length: "length (to_hex bs) = 2 * length bs"
  by (induction bs) (simp_all add: to_hex_def hex_byte_def)

lemma to_hex_inj: "to_hex bs = to_hex cs \<Longrightarrow> bs = cs"
proof (induction bs arbitrary: cs)
  case Nil
  then show ?case by (cases cs) (simp_all add: to_hex_def hex_byte_def)
next
  case (Cons b bs)
  show ?case
  proof (cases cs)
    case Nil
    with Cons.prems show ?thesis by (simp add: to_hex_def hex_byte_def)
  next
    case (Cons c cs')
    with Cons.prems have "hex_byte b @ to_hex bs = hex_byte c @ to_hex cs'"
      by (simp add: to_hex_Cons)
    moreover have "length (hex_byte b) = length (hex_byte c)" by (simp add: hex_byte_def)
    ultimately have "hex_byte b = hex_byte c" "to_hex bs = to_hex cs'" by simp_all
    with Cons.IH hex_byte_inj Cons show ?thesis by blast
  qed
qed

lemma to_hex_nonempty: "bs \<noteq> [] \<Longrightarrow> to_hex bs \<noteq> []"
  by (cases bs) (simp_all add: to_hex_Cons hex_byte_def)

text \<open>The three ways through the middleware that initialises the secret.\<close>

lemma csrfSecretInit_keeps:
  "truthy (csrfSecret (req_session r)) \<Longrightarrow> csrfSecretInit randomBytes store_set r = Next r"
  by (simp add: csrfSecretInit_def)

lemma csrfSecretInit_saved:
  assumes "\<not> truthy (csrfSecret (req_session r))"
    and "sess' = (req_session r)\<lparr>csrfSecret := JStr (to_hex (randomBytes 32))\<rparr>"
    and "store_set sess' = None"
  shows "csrfSecretInit randomBytes store_set r = Next (r\<lparr>req_session := sess', store_entry := Some sess'\<rparr>)"
  using assms by (simp add: csrfSecretInit_def session_save_def)

lemma csrfSecretInit_failed:
  assumes "\<not> truthy (csrfSecret (req_session r))"
    and "sess' = (req_session r)\<lparr>csrfSecret := JStr (to_hex (randomBytes 32))\<rparr>"
    and "store_set sess' = Some err"
  shows "csrfSecretInit randomBytes store_set r = NextErr err (r\<lparr>req_session := sess'\<rparr>)"
  using assms by (simp add: csrfSecretInit_def session_save_def)

text \<open>
  C9. A session that holds a secret keeps it: the middleware calls \<open>next()\<close> and changes
  nothing. A session without one gets the hexadecimal rendering of 32 random bytes, 64
  characters from which the 32 bytes can be read back. If the session store accepts the
  session, the middleware continues with the secret in the session and in the store's
  record, and no later request of that session changes it again, whatever the random
  bytes and the store then do. If the store reports an error, the middleware calls
  \<open>next(err)\<close>: neither the verification layer nor the token layer runs, and the error is
  pending for the error handlers.
\<close>

theorem csrfSecretInit_secret_lifecycle:
  "(truthy (csrfSecret (req_session r)) \<longrightarrow>
      csrfSecretInit randomBytes store_set r = Next r) \<and>
   (\<not> truthy (csrfSecret (req_session r)) \<and> length (randomBytes 32) = 32 \<and>
    sess' = (req_session r)\<lparr>csrfSecret := JStr (to_hex (randomBytes 32))\<rparr> \<longrightarrow>
      length (to_hex (randomBytes 32)) = 64 \<and>
      (\<forall>bs. to_hex bs = to_hex (randomBytes 32) \<longrightarrow> bs = randomBytes 32) \<and>
      (store_set sess' = None \<longrightarrow>
         csrfSecretInit randomBytes store_set r =
           Next (r\<lparr>req_session := sess', store_entry := Some sess'\<rparr>) \<and>
         csrfSecretInit randomBytes2 store_set2 (r\<lparr>req_session := sess', store_entry := Some sess'\<rparr>) =
           Next (r\<lparr>req_session := sess', store_entry := Some sess'\<rparr>)) \<and>
      (\<forall>err. store_set sess' = Some err \<longrightarrow>
         csrfSecretInit randomBytes store_set r = NextErr err (r\<lparr>req_session := sess'\<rparr>) \<and>
         run_layers (csrf_layers randomBytes store_set validateRequest generateToken) r =
           (NextErr err (r\<lparr>req_session := sess'\<rparr>), [''csrfSecretInit''])))"
proof (intro conjI impI allI)
  assume "truthy (csrfSecret (req_session r))"
  then show "csrfSecretInit randomBytes store_set r = Next r" by (rule csrfSecretInit_keeps)
next
  assume h: "\<not> truthy (csrfSecret (req_session r)) \<and> length (randomBytes 32) = 32 \<and>
    sess' = (req_session r)\<lparr>csrfSecret := JStr (to_hex (randomBytes 32))\<rparr>"
  then show "length (to_hex (randomBytes 32)) = 64" by (simp add: to_hex_length)
next
  fix bs
  assume "to_hex bs = to_hex (randomBytes 32)"
  then show "bs = randomBytes 32" by (rule to_hex_inj)
next
  assume h: "\<not> truthy (csrfSecret (req_session r)) \<and> length (randomBytes 32) = 32 \<and>
    sess' = (req_session r)\<lparr>csrfSecret := JStr (to_hex (randomBytes 32))\<rparr>"
    and w: "store_set sess' = None"
  then show "csrfSecretInit randomBytes store_set r =
           Next (r\<lparr>req_session := sess', store_entry := Some sess'\<rparr>)"
    by (simp add: csrfSecretInit_saved)
next
  assume h: "\<not> truthy (csrfSecret (req_session r)) \<and> length (randomBytes 32) = 32 \<and>
    sess' = (req_session r)\<lparr>csrfSecret := JStr (to_hex (randomBytes 32))\<rparr>"
  then have "randomBytes 32 \<noteq> []" by auto
  then have "truthy (csrfSecret sess')" using h by (simp add: to_hex_nonempty)
  then show "csrfSecretInit randomBytes2 store_set2 (r\<lparr>req_session := sess', store_entry := Some sess'\<rparr>) =
           Next (r\<lparr>req_session := sess', store_entry := Some sess'\<rparr>)"
    by (simp add: csrfSecretInit_keeps)
next
  fix err
  assume h: "\<not> truthy (csrfSecret (req_session r)) \<and> length (randomBytes 32) = 32 \<and>
    sess' = (req_session r)\<lparr>csrfSecret := JStr (to_hex (randomBytes 32))\<rparr>"
    and w: "store_set sess' = Some err"
  then show f: "csrfSecretInit randomBytes store_set r = NextErr err (r\<lparr>req_session := sess'\<rparr>)"
    by (simp add: csrfSecretInit_failed)
  then show "run_layers (csrf_layers randomBytes store_set validateRequest generateToken) r =
           (NextErr err (r\<lparr>req_session := sess'\<rparr>), [''csrfSecretInit''])"
    by (simp add: run_layers_def csrf_layers_def)
qed


theorem csrfSecretInit_secret_lifecycle_witness:
  "csrfSecretInit (\<lambda>n. replicate n 171) (\<lambda>s. None)
       (sample_request ''GET'' \<lparr>csrfSecret = JStr ''5ec2e7'', session_user = None\<rparr>) =
     Next (sample_request ''GET'' \<lparr>csrfSecret = JStr ''5ec2e7'', session_user = None\<rparr>) \<and>
   csrfSecretInit (\<lambda>n. replicate n 171) (\<lambda>s. None) (sample_request ''GET'' fresh_session) =
     Next ((sample_request ''GET'' fresh_session)
             \<lparr>req_session := \<lparr>csrfSecret = JStr (to_hex (replicate 32 171)), session_user = None\<rparr>,
              store_entry :=
                Some \<lparr>csrfSecret = JStr (to_hex (replicate 32 171)), session_user = None\<rparr>\<rparr>) \<and>
   length (to_hex (replicate 32 (171 :: 8 word))) = 64 \<and>
   run_layers
       (csrf_layers (\<lambda>n. replicate n 171) (\<lambda>s. Some (Error ''store unavailable''))
          header_matches (\<lambda>r. Inr ''token''))
       (sample_request ''POST'' fresh_session) =
     (NextErr (Error ''store unavailable'')
        ((sample_request ''POST'' fresh_session)
           \<lparr>req_session := \<lparr>csrfSecret = JStr (to_hex (replicate 32 171)), session_user = None\<rparr>\<rparr>),
      [''csrfSecretInit''])"
proof -
  have kept:
    "csrfSecretInit (\<lambda>n. replicate n 171) (\<lambda>s. None)
       (sample_request ''GET'' \<lparr>csrfSecret = JStr ''5ec2e7'', session_user = None\<rparr>) =
     Next (sample_request ''GET'' \<lparr>csrfSecret = JStr ''5ec2e7'', session_user = None\<rparr>)"
    using csrfSecretInit_secret_lifecycle
      [where r = "sample_request ''GET'' \<lparr>csrfSecret = JStr ''5ec2e7'', session_user = None\<rparr>"
         and randomBytes = "\<lambda>n. replicate n 171" and store_set = "\<lambda>s. None"]
    by (simp add: sample_request_def)
  have saved:
    "csrfSecretInit (\<lambda>n. replicate n 171) (\<lambda>s. None) (sample_request ''GET'' fresh_session) =
     Next ((sample_request ''GET'' fresh_session)
             \<lparr>req_session := \<lparr>csrfSecret = JStr (to_hex (replicate 32 171)), session_user = None\<rparr>,
              store_entry :=
                Some \<lparr>csrfSecret = JStr (to_hex (replicate 32 171)), session_user = None\<rparr>\<rparr>) \<and>
     length (to_hex (replicate 32 (171 :: 8 word))) = 64"
    using csrfSecretInit_secret_lifecycle
      [where r = "sample_request ''GET'' fresh_session"
         and randomBytes = "\<lambda>n. replicate n 171" and store_set = "\<lambda>s. None"
         and sess' = "\<lparr>csrfSecret = JStr (to_hex (replicate 32 171)), session_user = None\<rparr>"]
    by (simp add: sample_request_def fresh_session_def)
  have failed:
    "run_layers
       (csrf_layers (\<lambda>n. replicate n 171) (\<lambda>s. Some (Error ''store unavailable''))
          header_matches (\<lambda>r. Inr ''token''))
       (sample_request ''POST'' fresh_session) =
     (NextErr (Error ''store unavailable'')
        ((sample_request ''POST'' fresh_session)
           \<lparr>req_session := \<lparr>csrfSecret = JStr (to_hex (replicate 32 171)), session_user = None\<rparr>\<rparr>),
      [''csrfSecretInit''])"
    using csrfSecretInit_secret_lifecycle
      [where r = "sample_request ''POST'' fresh_session"
         and randomBytes = "\<lambda>n. replicate n 171"
         and store_set = "\<lambda>s. Some (Error ''store unavailable'')"
         and sess' = "\<lparr>csrfSecret = JStr (to_hex (replicate 32 171)), session_user = None\<rparr>"
         and validateRequest = header_matches and generateToken = "\<lambda>r. Inr ''token''"]
    by (simp add: sample_request_def fresh_session_def)
  from kept saved failed show ?thesis by blast
qed

text \<open>The verification layer on a request with and without \<open>req.cookies\<close>.\<close>

lemma doubleCsrfProtection_ignored:
  "req_method r \<in> set ignoredMethods \<Longrightarrow> doubleCsrfProtection validatePair r = Next r"
  by (simp add: doubleCsrfProtection_def)

lemma doubleCsrfProtection_without_cookies:
  assumes "req_cookies r = None" and "req_method r \<notin> set ignoredMethods"
  shows "doubleCsrfProtection validatePair r = NextErr cookies_undefined r"
  using assms by (simp add: doubleCsrfProtection_def getCsrfCookieFromRequest_def)

lemma doubleCsrfProtection_with_cookies:
  assumes "req_cookies r = Some cs" and "req_method r \<notin> set ignoredMethods"
    and "\<not> validatePair (getSecret r) r"
  shows "doubleCsrfProtection validatePair r = NextErr invalidCsrfTokenError r"
  using assms
  by (simp add: doubleCsrfProtection_def getCsrfCookieFromRequest_def split: jsval.splits)

lemma cookies_undefined_not_csrf: "cookies_undefined \<noteq> invalidCsrfTokenError"
  by (simp add: cookies_undefined_def invalidCsrfTokenError_def)

lemma csrfSecretInit_request:
  assumes "csrfSecretInit randomBytes store_set r = Next r'"
  shows "req_cookies r' = req_cookies r \<and> req_method r' = req_method r"
  using assms
  by (auto simp: csrfSecretInit_def session_save_def Let_def split: if_splits option.splits)

text \<open>
  C10, evaluated on the code. A \<open>POST\<close> without a CSRF token, in a session that holds a
  secret, reaches the verification layer with \<open>req.cookies\<close> undefined, since the
  application registers no cookie parser. The layer throws a type error when it reads
  its cookie: the error pending after the layers of \<open>setupCSRFProtection\<close> is that type
  error, which the final handler answers with 500, and not the 403 error of a failed
  verification that the claim has.
\<close>

theorem doubleCsrfProtection_cookies_undefined:
  "doubleCsrfProtection header_matches
       (incoming_request ''POST'' \<lparr>csrfSecret = JStr ''5ec2e7'', session_user = None\<rparr>
          (Some \<lparr>csrfSecret = JStr ''5ec2e7'', session_user = None\<rparr>) None) =
     NextErr cookies_undefined
       (incoming_request ''POST'' \<lparr>csrfSecret = JStr ''5ec2e7'', session_user = None\<rparr>
          (Some \<lparr>csrfSecret = JStr ''5ec2e7'', session_user = None\<rparr>) None) \<and>
   run_layers
       (csrf_layers (\<lambda>n. replicate n 171) (\<lambda>s. None) header_matches (\<lambda>r. Inr ''token''))
       (incoming_request ''POST'' \<lparr>csrfSecret = JStr ''5ec2e7'', session_user = None\<rparr>
          (Some \<lparr>csrfSecret = JStr ''5ec2e7'', session_user = None\<rparr>) None) =
     (NextErr cookies_undefined
        (incoming_request ''POST'' \<lparr>csrfSecret = JStr ''5ec2e7'', session_user = None\<rparr>
           (Some \<lparr>csrfSecret = JStr ''5ec2e7'', session_user = None\<rparr>) None),
      [''csrfSecretInit'', ''doubleCsrfProtection'']) \<and>
   cookies_undefined \<noteq> invalidCsrfTokenError \<and>
   error_status cookies_undefined = 500 \<and>
   error_status invalidCsrfTokenError = 403"
proof -
  let ?r = "incoming_request ''POST'' \<lparr>csrfSecret = JStr ''5ec2e7'', session_user = None\<rparr>
          (Some \<lparr>csrfSecret = JStr ''5ec2e7'', session_user = None\<rparr>) None"
  have cookies: "req_cookies ?r = None" and unsafe: "req_method ?r \<notin> set ignoredMethods"
    by (simp_all add: incoming_request_def ignoredMethods_def)
  have thrown: "doubleCsrfProtection header_matches ?r = NextErr cookies_undefined ?r"
    using cookies unsafe by (rule doubleCsrfProtection_without_cookies)
  have kept: "csrfSecretInit (\<lambda>n. replicate n 171) (\<lambda>s. None) ?r = Next ?r"
    by (rule csrfSecretInit_keeps) (simp add: incoming_request_def)
  have chain:
    "run_layers
       (csrf_layers (\<lambda>n. replicate n 171) (\<lambda>s. None) header_matches (\<lambda>r. Inr ''token'')) ?r =
     (NextErr cookies_undefined ?r, [''csrfSecretInit'', ''doubleCsrfProtection''])"
    by (simp add: run_layers_def csrf_layers_def kept thrown)
  have statuses: "error_status cookies_undefined = 500" "error_status invalidCsrfTokenError = 403"
    by (simp_all add: cookies_undefined_def invalidCsrfTokenError_def)
  from thrown chain cookies_undefined_not_csrf statuses show ?thesis by blast
qed

theorem doubleCsrfProtection_cookies_undefined_witness:
  "final_status (fst (run_layers
       (csrf_layers (\<lambda>n. replicate n 171) (\<lambda>s. None) header_matches (\<lambda>r. Inr ''token''))
       (incoming_request ''POST'' \<lparr>csrfSecret = JStr ''5ec2e7'', session_user = None\<rparr>
          (Some \<lparr>csrfSecret = JStr ''5ec2e7'', session_user = None\<rparr>) None))) = 500"
  using doubleCsrfProtection_cookies_undefined by simp

text \<open>
  The same over the whole chain, with the error handler as the specification has it: the
  type error passes it and stays pending, so the request is answered 500, and neither the
  global middleware nor the router runs.
\<close>

lemma app_layers_cookies_undefined:
  assumes "req_cookies r = None" and "req_method r \<notin> set ignoredMethods"
    and "csrfSecretInit randomBytes store_set r = Next r'"
  shows "run_layers
           (app_layers randomBytes store_set validateRequest generateToken middleWareGlobal routes) r =
         (NextErr cookies_undefined r',
          [''csrfSecretInit'', ''doubleCsrfProtection'', ''checkCSRFError''])"
    and "final_status (fst (run_layers
           (app_layers randomBytes store_set validateRequest generateToken middleWareGlobal routes) r))
         = 500"
proof -
  have "req_cookies r' = None" "req_method r' \<notin> set ignoredMethods"
    using assms csrfSecretInit_request[OF assms(3)] by simp_all
  then have "doubleCsrfProtection validateRequest r' = NextErr cookies_undefined r'"
    by (rule doubleCsrfProtection_without_cookies)
  then show "run_layers
           (app_layers randomBytes store_set validateRequest generateToken middleWareGlobal routes) r =
         (NextErr cookies_undefined r',
          [''csrfSecretInit'', ''doubleCsrfProtection'', ''checkCSRFError''])"
    using assms(3)
    by (simp add: run_layers_def app_layers_def csrf_layers_def global_layers_def
        checkCSRFError_def cookies_undefined_def)
  then show "final_status (fst (run_layers
           (app_layers randomBytes store_set validateRequest generateToken middleWareGlobal routes) r))
         = 500"
    by (simp add: cookies_undefined_def)
qed

text \<open>
  Had a cookie parser run, a request that fails the verification would be answered 403
  by the whole chain.
\<close>

lemma app_layers_rejects:
  assumes "csrfSecretInit randomBytes store_set r = Next r'"
    and "req_cookies r' = Some cs"
    and "req_method r' \<notin> set ignoredMethods"
    and "\<not> validateRequest (getSecret r') r'"
  shows "run_layers
           (app_layers randomBytes store_set validateRequest generateToken middleWareGlobal routes) r =
         (Done (respond 403 (ErrorBody ''invalid csrf token'')) r',
          [''csrfSecretInit'', ''doubleCsrfProtection'', ''checkCSRFError''])"
  using assms(1)
    doubleCsrfProtection_with_cookies
      [where validatePair = validateRequest and r = r' and cs = cs, OF assms(2-4)]
  by (simp add: run_layers_def app_layers_def csrf_layers_def global_layers_def
      invalidCsrfTokenError_def checkCSRFError_def)

text \<open>
  Over the whole chain: the router runs only for a request whose secret initialisation
  went through and that either has an exempt method or carries cookies and a token that
  verifies. Without a cookie parser it runs for the exempt methods only.
\<close>

lemma routes_only_after_verification:
  assumes "''routes'' \<in> set (snd (run_layers
      (app_layers randomBytes store_set validateRequest generateToken middleWareGlobal routes) r))"
  shows "\<exists>r'. csrfSecretInit randomBytes store_set r = Next r' \<and>
           (req_method r' \<in> set ignoredMethods \<or>
            req_cookies r' \<noteq> None \<and> validateRequest (getSecret r') r')"
proof (cases "csrfSecretInit randomBytes store_set r")
  case (Next r')
  show ?thesis
  proof (rule ccontr)
    assume "\<not> ?thesis"
    with Next have unsafe: "req_method r' \<notin> set ignoredMethods"
      and bad: "req_cookies r' = None \<or> \<not> validateRequest (getSecret r') r'"
      by auto
    have "\<exists>err. doubleCsrfProtection validateRequest r' = NextErr err r' \<and>
            (err = cookies_undefined \<or> err = invalidCsrfTokenError)"
    proof (cases "req_cookies r'")
      case None
      then show ?thesis using unsafe doubleCsrfProtection_without_cookies by blast
    next
      case (Some cs)
      with bad have "\<not> validateRequest (getSecret r') r'" by simp
      with Some unsafe show ?thesis using doubleCsrfProtection_with_cookies by blast
    qed
    then obtain err where "doubleCsrfProtection validateRequest r' = NextErr err r'"
      and "err = cookies_undefined \<or> err = invalidCsrfTokenError"
      by blast
    then have "''routes'' \<notin> set (snd (run_layers
      (app_layers randomBytes store_set validateRequest generateToken middleWareGlobal routes) r))"
      using Next
      by (auto simp: run_layers_def app_layers_def csrf_layers_def global_layers_def
          invalidCsrfTokenError_def cookies_undefined_def checkCSRFError_def)
    with assms show False by simp
  qed
next
  case (NextErr err r')
  then have "''routes'' \<notin> set (snd (run_layers
      (app_layers randomBytes store_set validateRequest generateToken middleWareGlobal routes) r))"
    by (cases err)
      (simp_all add: run_layers_def app_layers_def csrf_layers_def global_layers_def
        checkCSRFError_def)
  with assms show ?thesis by simp
next
  case (Done resp r')
  then have "''routes'' \<notin> set (snd (run_layers
      (app_layers randomBytes store_set validateRequest generateToken middleWareGlobal routes) r))"
    by (simp add: run_layers_def app_layers_def csrf_layers_def global_layers_def)
  with assms show ?thesis by simp
qed

lemma routes_only_for_ignored_methods:
  assumes "req_cookies r = None"
    and "''routes'' \<in> set (snd (run_layers
      (app_layers randomBytes store_set validateRequest generateToken middleWareGlobal routes) r))"
  shows "req_method r \<in> set ignoredMethods"
proof -
  from routes_only_after_verification[OF assms(2)]
  obtain r' where init: "csrfSecretInit randomBytes store_set r = Next r'"
    and pass: "req_method r' \<in> set ignoredMethods \<or>
               req_cookies r' \<noteq> None \<and> validateRequest (getSecret r') r'"
    by blast
  from csrfSecretInit_request[OF init] assms(1)
  have "req_cookies r' = None" "req_method r' = req_method r" by simp_all
  with pass show ?thesis by simp
qed

end
